theory Spec2Isabelle
  imports Main "HOL-Library.AList"
begin

section \<open>Python values and exceptions\<close>

text \<open>
  The exceptions \<^verbatim>\<open>knackpy/app.py\<close> raises or lets through, each with the data it
  carries. \<open>ValueError\<close>, \<open>IndexError\<close> and \<open>TypeError\<close> carry the message the
  source builds; \<open>KeyError\<close> the missing key; \<open>HTTPError\<close> (raised by
  \<^verbatim>\<open>res.raise_for_status()\<close>) the URL and the status code; \<open>CollaboratorError\<close>
  stands for whatever an external collaborator (the record transport, \<^verbatim>\<open>requests\<close>,
  the file system, \<^verbatim>\<open>utils.humanize_bytes\<close>) raises by itself; \<open>BdbQuit\<close> is what
  leaving the debugger with \<^verbatim>\<open>quit\<close> raises.
\<close>

datatype error =
    ValueError string
  | IndexError string
  | TypeError string
  | KeyError string
  | HTTPError string nat
  | CollaboratorError string
  | BdbQuit

text \<open>
  A Python string that may be \<^verbatim>\<open>None\<close>: \<open>None\<close> is \<^verbatim>\<open>None\<close>, \<open>Some s\<close> the
  string. \<^verbatim>\<open>not x\<close> holds for \<^verbatim>\<open>None\<close> and for the empty string; an f-string
  renders \<^verbatim>\<open>None\<close> as the text \<^verbatim>\<open>None\<close>.
\<close>

type_synonym pystr = "string option"

definition falsy_str :: "pystr \<Rightarrow> bool" where
  "falsy_str x = (x = None \<or> x = Some [])"

definition fmt_str :: "pystr \<Rightarrow> string" where
  "fmt_str x = (case x of None \<Rightarrow> ''None'' | Some s \<Rightarrow> s)"

text \<open>
  \<^verbatim>\<open>str.lower()\<close> on the ASCII range (a \<open>char\<close> is a byte): the letters
  \<^verbatim>\<open>A\<close> to \<^verbatim>\<open>Z\<close> move to \<^verbatim>\<open>a\<close> to \<^verbatim>\<open>z\<close>, every other byte stays.
\<close>

definition lower_char :: "char \<Rightarrow> char" where
  "lower_char c =
     (let n = (of_char c :: nat) in if 65 \<le> n \<and> n \<le> 90 then char_of (n + 32) else c)"

definition lower :: "string \<Rightarrow> string" where
  "lower s = map lower_char s"

section \<open>Timezone resolution\<close>




section \<open>Containers and identifier resolution\<close>

text \<open>
  A field definition as \<^verbatim>\<open>fields.field_defs_from_metadata\<close> builds it (not part of
  this module; the attributes are the ones \<^verbatim>\<open>app.py\<close> reads). Its
  attributes \<^verbatim>\<open>name\<close> and \<^verbatim>\<open>obj\<close> share their names with a container's, so they
  are written \<open>FieldDef.name\<close> and \<open>FieldDef.obj\<close> below.
\<close>

record FieldDef =
  key :: string
  name :: string
  obj :: string

text \<open>
  A container as \<^verbatim>\<open>utils.generate_containers\<close> builds it (the function is not part
  of this module; the attributes are the ones \<^verbatim>\<open>app.py\<close> reads): \<^verbatim>\<open>obj\<close>,
  \<^verbatim>\<open>view\<close> and \<^verbatim>\<open>scene\<close> may be \<^verbatim>\<open>None\<close>, \<^verbatim>\<open>name\<close> is a string.
\<close>

record Container =
  obj :: pystr
  view :: pystr
  scene :: pystr
  name :: string

text \<open>
  \<^verbatim>\<open>App._find_container\<close>, over the container list of the app. The membership test
  \<^verbatim>\<open>identifier in [container.obj, container.view, container.name]\<close> compares with
  \<^verbatim>\<open>==\<close>.
\<close>

definition find_container :: "Container list \<Rightarrow> pystr \<Rightarrow> error + Container" where
  "find_container containers identifier =
     (let matches = [container \<leftarrow> containers.
                       identifier \<in> set [obj container, view container, Some (name container)]]
      in if length matches > 1 then
           Inl (ValueError (''Multiple containers use name '' @ fmt_str identifier
                  @ ''. Try using a view or object key.''))
         else case matches of
                m # _ \<Rightarrow> Inr m
              | [] \<Rightarrow> Inl (IndexError (''Unknown container specified: '' @ fmt_str identifier
                         @ ''. Inspect App.containers for available containers.'')))"

text \<open>
  What the claim on identifier resolution calls a match: the identifier equals the
  container's \<^verbatim>\<open>obj\<close>, its \<^verbatim>\<open>view\<close> or its \<^verbatim>\<open>name\<close>. It is the reading of the
  specification; \<open>find_container\<close> above does not use it.
\<close>

definition names_container :: "pystr \<Rightarrow> Container \<Rightarrow> bool" where
  "names_container identifier c \<longleftrightarrow>
     identifier = obj c \<or> identifier = view c \<or> identifier = Some (name c)"

section \<open>Python objects, the heap and the state of the world\<close>

text \<open>
  A Python value as the code of this module tells values apart: \<^verbatim>\<open>None\<close>, a string,
  a reference to a dict object, or any other object (a number, a bool, a list, ...), of
  which the code only observes the truth value and the text \<^verbatim>\<open>str()\<close> renders.
  Dicts are objects on a heap, so that two references to one dict see each other's
  writes; a dict is an association list in insertion order.
\<close>

type_synonym addr = nat

datatype pyval = PNone | PStr string | PDict addr | PObj bool string

type_synonym pydict = "(string \<times> pyval) list"

type_synonym heap = "addr \<Rightarrow> pydict"

text \<open>\<^verbatim>\<open>d.get(k)\<close>: the value under the key, \<^verbatim>\<open>None\<close> when the key is absent.\<close>

definition dict_get :: "pydict \<Rightarrow> string \<Rightarrow> pyval" where
  "dict_get d k = (case map_of d k of None \<Rightarrow> PNone | Some v \<Rightarrow> v)"

text \<open>The truth value of a Python value (\<^verbatim>\<open>not v\<close> is its negation).\<close>

definition truthy :: "heap \<Rightarrow> pyval \<Rightarrow> bool" where
  "truthy h v =
     (case v of PNone \<Rightarrow> False | PStr s \<Rightarrow> s \<noteq> [] | PDict a \<Rightarrow> h a \<noteq> [] | PObj t _ \<Rightarrow> t)"

text \<open>
  How an f-string renders a value: \<^verbatim>\<open>None\<close> as the text \<^verbatim>\<open>None\<close>, a string as
  itself, another object as its \<^verbatim>\<open>str()\<close>. The text of a dict is left to the
  parameter \<open>dict_str\<close>.
\<close>

definition fmt :: "(heap \<Rightarrow> addr \<Rightarrow> string) \<Rightarrow> heap \<Rightarrow> pyval \<Rightarrow> string" where
  "fmt dict_str h v =
     (case v of PNone \<Rightarrow> ''None'' | PStr s \<Rightarrow> s | PDict a \<Rightarrow> dict_str h a | PObj _ s \<Rightarrow> s)"

text \<open>
  \<^verbatim>\<open>os.path.join(a, b)\<close> of \<^verbatim>\<open>posixpath\<close> on two strings: an absolute \<^verbatim>\<open>b\<close>
  replaces \<^verbatim>\<open>a\<close>; an empty \<^verbatim>\<open>a\<close>, or one that ends with the separator, is
  followed by \<^verbatim>\<open>b\<close> directly; otherwise the separator stands between them.
\<close>

definition os_path_join :: "string \<Rightarrow> string \<Rightarrow> string" where
  "os_path_join a b =
     (if take 1 b = ''/'' then b
      else if a = [] \<or> last a = CHR ''/'' then a @ b
      else a @ ''/'' @ b)"

text \<open>The attributes of \<^verbatim>\<open>App\<close> that are set once, in \<^verbatim>\<open>__init__\<close>.\<close>

record App =
  app_id :: string
  api_key :: pystr
  timeout :: "int option"
  max_attempts :: "int option"
  field_defs :: "FieldDef list"
  containers :: "Container list"

text \<open>The keyword arguments \<^verbatim>\<open>App.records\<close> passes to \<^verbatim>\<open>api.get\<close>.\<close>

record api_request =
  req_app_id :: string
  req_api_key :: pystr
  req_obj :: pystr
  req_scene :: pystr
  req_view :: pystr
  req_filters :: pyval
  req_kwargs :: "(string \<times> int) list"

text \<open>What \<^verbatim>\<open>requests.get\<close> returns, as far as the code reads it.\<close>

record response =
  status_code :: nat
  content :: string

text \<open>
  The state the code reads and writes: \<open>data\<close> is \<^verbatim>\<open>self.data\<close>, the record cache, a
  dict from container key to the cached batch (a list of references to raw record
  dicts); \<open>heap\<close> holds the dict objects; \<open>files\<close> the files written; \<open>dirs_made\<close>
  the directories \<^verbatim>\<open>os.makedirs\<close> created; \<open>api_calls\<close> and \<open>http_calls\<close> log, in
  order, the calls of \<^verbatim>\<open>api.get\<close> and of \<^verbatim>\<open>requests.get\<close>.
\<close>

record state =
  data :: "(pystr \<times> addr list) list"
  heap :: heap
  files :: "string \<rightharpoonup> string"
  dirs_made :: "string list"
  api_calls :: "api_request list"
  http_calls :: "pyval list"

text \<open>
  What one can type at the prompt of the debugger that \<^verbatim>\<open>breakpoint()\<close> opens:
  \<^verbatim>\<open>continue\<close> resumes the program, \<^verbatim>\<open>quit\<close> raises \<^verbatim>\<open>BdbQuit\<close> in it.
\<close>

datatype dbg_cmd = Continue | Quit

text \<open>
  The collaborators, as parameters. Each may depend on the state of the world when it is
  called. \<open>api_get\<close> is \<^verbatim>\<open>knackpy.api.get\<close>: it raises, or returns the batch as
  references to record dicts together with the heap that holds them. \<open>requests_get\<close> is
  \<^verbatim>\<open>requests.get(url, allow_redirects=True)\<close>. \<open>path_exists\<close>, \<open>makedirs\<close> and
  \<open>open_wb\<close> are the file system (\<open>Some e\<close>: the call raises \<open>e\<close>). \<open>humanize_bytes\<close> is
  \<^verbatim>\<open>utils.humanize_bytes\<close>. \<open>dict_str\<close> is \<^verbatim>\<open>str()\<close> on a dict. \<open>pdb_input\<close> is
  what the debugger prompt is given: \<open>None\<close> when nobody ever types a command.
\<close>

record env =
  api_get :: "state \<Rightarrow> api_request \<Rightarrow> error + (addr list \<times> heap)"
  requests_get :: "state \<Rightarrow> pyval \<Rightarrow> error + response"
  path_exists :: "state \<Rightarrow> string \<Rightarrow> bool"
  makedirs :: "state \<Rightarrow> string \<Rightarrow> error option"
  open_wb :: "state \<Rightarrow> string \<Rightarrow> error option"
  humanize_bytes :: "pyval \<Rightarrow> error + string"
  dict_str :: "heap \<Rightarrow> addr \<Rightarrow> string"
  pdb_input :: "dbg_cmd option"

text \<open>
  The outcome of a call that reaches \<^verbatim>\<open>breakpoint()\<close>: it returns, it raises, or it
  is suspended at the debugger prompt and has not returned.
\<close>

datatype 'a outcome = Returns 'a | Raises error | Suspended

section \<open>The record cache\<close>

text \<open>
  \<^verbatim>\<open>App._build_request_kwargs\<close>: of the supported keys, in their order, those whose
  argument is truthy (neither \<^verbatim>\<open>None\<close> nor \<^verbatim>\<open>0\<close>).
\<close>

definition build_request_kwargs :: "(string \<times> int option) list \<Rightarrow> (string \<times> int) list" where
  "build_request_kwargs kwargs =
     (let supported_kwargs = [''record_limit'', ''max_attempts'', ''timeout'']
      in [(k, v). k \<leftarrow> supported_kwargs, Some (Some v) \<leftarrow> [map_of kwargs k], v \<noteq> 0])"

text \<open>
  \<^verbatim>\<open>container.obj or container.view\<close>, the key of a container in the cache: the
  object key when it is truthy, the view key otherwise.
\<close>

definition obj_or_view :: "Container \<Rightarrow> pystr" where
  "obj_or_view container =
     (if falsy_str (Container.obj container) then Container.view container
      else Container.obj container)"

text \<open>
  Modelled from the spec: \<^verbatim>\<open>knackpy.records.Records\<close> and its \<^verbatim>\<open>Record\<close> are not part
  of this module. The specification's record materializer consumes the raw record batch
  and yields one record per raw record, in the order of the batch; a raw record is the
  unmodified payload of the batch, so \<^verbatim>\<open>record.raw\<close> is the reference to the raw
  dict the batch holds. The formatted fields, for which the materializer takes the field
  definitions and the timezone, are not modelled.
\<close>

record Record =
  raw :: addr

definition generate_records :: "App \<Rightarrow> pystr \<Rightarrow> addr list \<Rightarrow> Record list" where
  "generate_records app container_key batch = map (\<lambda>a. \<lparr>raw = a\<rparr>) batch"

text \<open>
  \<^verbatim>\<open>App.records\<close>. \<^verbatim>\<open>not self.data.get(container_key)\<close> holds when the key is
  absent and when the cached batch is the empty list. A call of \<^verbatim>\<open>api.get\<close> is logged
  whether it returns or raises. The final \<^verbatim>\<open>self.data[container_key]\<close> is a subscript.
\<close>

definition records ::
  "App \<Rightarrow> env \<Rightarrow> state \<Rightarrow> pystr \<Rightarrow> bool \<Rightarrow> int option \<Rightarrow> pyval
     \<Rightarrow> (error + Record list) \<times> state" where
  "records app env st identifier refresh record_limit filters =
     (case (if falsy_str identifier \<and> length (data st) = 1 then Inr (fst (hd (data st)))
            else if falsy_str identifier then
              Inl (TypeError ''Missing 1 required argument: identifier'')
            else Inr identifier) of
        Inl e \<Rightarrow> (Inl e, st)
      | Inr identifier \<Rightarrow>
          (case find_container (containers app) identifier of
             Inl e \<Rightarrow> (Inl e, st)
           | Inr container \<Rightarrow>
               (let container_key = obj_or_view container;
                    cached = map_of (data st) container_key
                in case (if cached = None \<or> cached = Some [] \<or> refresh then
                           (let request_kwargs = build_request_kwargs
                                  [(''max_attempts'', max_attempts app),
                                   (''timeout'', timeout app),
                                   (''record_limit'', record_limit)];
                                request = \<lparr>req_app_id = app_id app, req_api_key = api_key app,
                                           req_obj = Container.obj container,
                                           req_scene = Container.scene container,
                                           req_view = Container.view container,
                                           req_filters = filters,
                                           req_kwargs = request_kwargs\<rparr>;
                                st1 = st\<lparr>api_calls := api_calls st @ [request]\<rparr>
                            in case api_get env st request of
                                 Inl e \<Rightarrow> Inl (e, st1)
                               | Inr (batch, h) \<Rightarrow>
                                   Inr (st1\<lparr>heap := h,
                                            data := AList.update container_key batch (data st1)\<rparr>))
                         else Inr st) of
                     Inl (e, st') \<Rightarrow> (Inl e, st')
                   | Inr st' \<Rightarrow>
                       (case map_of (data st') container_key of
                          None \<Rightarrow> (Inl (KeyError (fmt_str container_key)), st')
                        | Some batch \<Rightarrow>
                            (Inr (generate_records app container_key batch), st')))))"


section \<open>The download assembler\<close>

text \<open>
  The inner loop of \<^verbatim>\<open>App._assemble_downloads\<close>:
  \<^verbatim>\<open>for field in reversed(label_keys): filename = f"{record.raw.get(field)}_{filename}"\<close>.
  The file name is a value of the payload dict until the first f-string makes it a string.
\<close>

definition label_filename :: "env \<Rightarrow> heap \<Rightarrow> Record \<Rightarrow> string list \<Rightarrow> pyval \<Rightarrow> pyval" where
  "label_filename env h record label_keys filename =
     fold (\<lambda>field filename.
             PStr (fmt (dict_str env) h (dict_get (h (raw record)) field) @ ''_''
                   @ fmt (dict_str env) h filename))
          (rev label_keys) filename"

text \<open>
  The body of the outer loop, for one record: \<open>Inr (None, h)\<close> is \<^verbatim>\<open>continue\<close>,
  \<open>Inr (Some a, h')\<close> appends the payload dict at \<open>a\<close> to \<^verbatim>\<open>downloads\<close>, after the
  assignment \<^verbatim>\<open>file_dict["filename"] = os.path.join(out_dir, filename)\<close> has written
  to that dict. A truthy payload that is not a dict cannot be subscripted with a string,
  a missing \<^verbatim>\<open>filename\<close> key raises \<^verbatim>\<open>KeyError\<close>, and \<^verbatim>\<open>os.path.join\<close> takes a
  string only.
\<close>

definition assemble_record ::
  "env \<Rightarrow> string \<Rightarrow> string list option \<Rightarrow> string \<Rightarrow> Record \<Rightarrow> heap
     \<Rightarrow> error + (addr option \<times> heap)" where
  "assemble_record env field_key_raw label_keys out_dir record h =
     (let file_dict = dict_get (h (raw record)) field_key_raw
      in if \<not> truthy h file_dict then Inr (None, h)
         else case file_dict of
                PDict a \<Rightarrow>
                  (case map_of (h a) ''filename'' of
                     None \<Rightarrow> Inl (KeyError ''filename'')
                   | Some filename \<Rightarrow>
                       (let filename =
                              (case label_keys of
                                 Some (k # ks) \<Rightarrow> label_filename env h record (k # ks) filename
                               | _ \<Rightarrow> filename)
                        in case filename of
                             PStr s \<Rightarrow>
                               Inr (Some a,
                                    h(a := AList.update ''filename''
                                             (PStr (os_path_join out_dir s)) (h a)))
                           | _ \<Rightarrow> Inl (TypeError
                                      ''expected str, bytes or os.PathLike object'')))
              | PStr _ \<Rightarrow> Inl (TypeError ''string indices must be integers'')
              | _ \<Rightarrow> Inl (TypeError ''object is not subscriptable with a string''))"

fun assemble_loop ::
  "env \<Rightarrow> string \<Rightarrow> string list option \<Rightarrow> string \<Rightarrow> Record list \<Rightarrow> heap \<Rightarrow> addr list
     \<Rightarrow> (error + addr list) \<times> heap" where
  "assemble_loop env field_key_raw label_keys out_dir [] h downloads = (Inr downloads, h)"
| "assemble_loop env field_key_raw label_keys out_dir (record # rest) h downloads =
     (case assemble_record env field_key_raw label_keys out_dir record h of
        Inl e \<Rightarrow> (Inl e, h)
      | Inr (None, h') \<Rightarrow> assemble_loop env field_key_raw label_keys out_dir rest h' downloads
      | Inr (Some file_dict, h') \<Rightarrow>
          assemble_loop env field_key_raw label_keys out_dir rest h' (downloads @ [file_dict]))"

text \<open>
  Python's built-in \<^verbatim>\<open>breakpoint()\<close> under its default hook, \<^verbatim>\<open>pdb.set_trace\<close>: the
  program stops at the debugger prompt and goes on only with what is typed there.
\<close>

definition breakpoint :: "env \<Rightarrow> unit outcome" where
  "breakpoint env =
     (case pdb_input env of
        None \<Rightarrow> Suspended
      | Some Continue \<Rightarrow> Returns ()
      | Some Quit \<Rightarrow> Raises BdbQuit)"

text \<open>
  \<^verbatim>\<open>App._assemble_downloads\<close>: the records of \<^verbatim>\<open>self.records(identifier)\<close> (with the
  defaults \<^verbatim>\<open>refresh=False\<close>, \<^verbatim>\<open>record_limit=None\<close>, \<^verbatim>\<open>filters=None\<close>), the loop
  over them, \<^verbatim>\<open>breakpoint()\<close>, and \<^verbatim>\<open>return downloads\<close>.
\<close>

definition assemble_downloads ::
  "App \<Rightarrow> env \<Rightarrow> state \<Rightarrow> pystr \<Rightarrow> string \<Rightarrow> string list option \<Rightarrow> string
     \<Rightarrow> addr list outcome \<times> state" where
  "assemble_downloads app env st identifier field_key label_keys out_dir =
     (let field_key_raw = field_key @ ''_raw''
      in case records app env st identifier False None PNone of
           (Inl e, st1) \<Rightarrow> (Raises e, st1)
         | (Inr recs, st1) \<Rightarrow>
             (case assemble_loop env field_key_raw label_keys out_dir recs (heap st1) [] of
                (Inl e, h) \<Rightarrow> (Raises e, st1\<lparr>heap := h\<rparr>)
              | (Inr downloads, h) \<Rightarrow>
                  (case breakpoint env of
                     Returns _ \<Rightarrow> (Returns downloads, st1\<lparr>heap := h\<rparr>)
                   | Raises e \<Rightarrow> (Raises e, st1\<lparr>heap := h\<rparr>)
                   | Suspended \<Rightarrow> (Suspended, st1\<lparr>heap := h\<rparr>))))"

section \<open>The download executor\<close>

text \<open>
  The body of the loop of \<^verbatim>\<open>App._download_files\<close>, for one descriptor: \<open>(None, st')\<close>
  when the file was written, \<open>(Some e, st')\<close> when \<open>e\<close> was raised. A descriptor is a
  reference to a dict; its \<^verbatim>\<open>filename\<close>, \<^verbatim>\<open>size\<close> and \<^verbatim>\<open>url\<close> are subscripts.
  The request is logged whether it returns or raises; \<^verbatim>\<open>res.raise_for_status()\<close>
  raises for a status code from 400 to 599; \<^verbatim>\<open>open(filename, "wb")\<close> takes a path
  string (a file descriptor number is not modelled) and, with the write, either succeeds
  or raises.
\<close>

definition download_file :: "env \<Rightarrow> addr \<Rightarrow> state \<Rightarrow> error option \<times> state" where
  "download_file env file_info st =
     (case map_of (heap st file_info) ''filename'' of
        None \<Rightarrow> (Some (KeyError ''filename''), st)
      | Some filename \<Rightarrow>
     (case map_of (heap st file_info) ''size'' of
        None \<Rightarrow> (Some (KeyError ''size''), st)
      | Some sz \<Rightarrow>
     (case humanize_bytes env sz of
        Inl e \<Rightarrow> (Some e, st)
      | Inr filesize \<Rightarrow>
     (case map_of (heap st file_info) ''url'' of
        None \<Rightarrow> (Some (KeyError ''url''), st)
      | Some url \<Rightarrow>
     (let st1 = st\<lparr>http_calls := http_calls st @ [url]\<rparr>
      in case requests_get env st url of
           Inl e \<Rightarrow> (Some e, st1)
         | Inr res \<Rightarrow>
             if 400 \<le> status_code res \<and> status_code res < 600 then
               (Some (HTTPError (fmt (dict_str env) (heap st) url) (status_code res)), st1)
             else
               (case filename of
                  PStr path \<Rightarrow>
                    (case open_wb env st1 path of
                       Some e \<Rightarrow> (Some e, st1)
                     | None \<Rightarrow> (None, st1\<lparr>files := (files st1)(path \<mapsto> content res)\<rparr>))
                | _ \<Rightarrow> (Some (TypeError ''expected str, bytes or os.PathLike object''),
                        st1)))))))"

text \<open>
  \<^verbatim>\<open>App._download_files\<close>: the loop over the descriptors in their order, with its
  counter, which goes up after each file written. An exception leaves the loop.
\<close>

fun download_files_loop :: "env \<Rightarrow> addr list \<Rightarrow> state \<Rightarrow> nat \<Rightarrow> (error + nat) \<times> state" where
  "download_files_loop env [] st count = (Inr count, st)"
| "download_files_loop env (file_info # rest) st count =
     (case download_file env file_info st of
        (Some e, st') \<Rightarrow> (Inl e, st')
      | (None, st') \<Rightarrow> download_files_loop env rest st' (count + 1))"

definition download_files :: "env \<Rightarrow> state \<Rightarrow> addr list \<Rightarrow> (error + nat) \<times> state" where
  "download_files env st downloads = download_files_loop env downloads st 0"

section \<open>Download\<close>

text \<open>
  \<^verbatim>\<open>App._find_field_def(identifier, obj)\<close>: the field definitions whose lowered name or
  whose key equals the lowered identifier and whose \<^verbatim>\<open>obj\<close> equals the argument.
\<close>

definition find_field_def :: "App \<Rightarrow> string \<Rightarrow> string \<Rightarrow> FieldDef list" where
  "find_field_def app identifier obj' =
     [field_def \<leftarrow> field_defs app.
        lower identifier \<in> set [lower (FieldDef.name field_def), FieldDef.key field_def]
        \<and> FieldDef.obj field_def = obj']"

text \<open>
  The first statement of \<^verbatim>\<open>App.download\<close>:
  \<^verbatim>\<open>if not os.path.exists(out_dir): os.makedirs(out_dir)\<close>.
\<close>

definition ensure_dir :: "env \<Rightarrow> state \<Rightarrow> string \<Rightarrow> error + state" where
  "ensure_dir env st out_dir =
     (if \<not> path_exists env st out_dir then
        (case makedirs env st out_dir of
           Some e \<Rightarrow> Inl e
         | None \<Rightarrow> Inr (st\<lparr>dirs_made := dirs_made st @ [out_dir]\<rparr>))
      else Inr st)"

text \<open>
  \<^verbatim>\<open>App.download\<close>, from its second statement on. The second argument of \<^verbatim>\<open>_find_field_def\<close> is the identifier the
  caller gave; the first argument of \<^verbatim>\<open>_assemble_downloads\<close> is \<^verbatim>\<open>container.obj\<close>.
\<close>

definition download ::
  "App \<Rightarrow> env \<Rightarrow> state \<Rightarrow> string \<Rightarrow> string \<Rightarrow> string \<Rightarrow> string list option
     \<Rightarrow> nat outcome \<times> state" where
  "download app env st identifier field out_dir label_keys =
     (case ensure_dir env st out_dir of
        Inl e \<Rightarrow> (Raises e, st)
      | Inr st1 \<Rightarrow>
          (case find_container (containers app) (Some identifier) of
             Inl e \<Rightarrow> (Raises e, st1)
           | Inr container \<Rightarrow>
               (case find_field_def app field identifier of
                  [] \<Rightarrow> (Raises (ValueError (''Field not found: '' @ [CHR 0x27] @ field
                                              @ [CHR 0x27])), st1)
                | field_def # _ \<Rightarrow>
                    (case assemble_downloads app env st1 (Container.obj container)
                            (FieldDef.key field_def) label_keys out_dir of
                       (Raises e, st2) \<Rightarrow> (Raises e, st2)
                     | (Suspended, st2) \<Rightarrow> (Suspended, st2)
                     | (Returns downloads, st2) \<Rightarrow>
                         (case download_files env st2 downloads of
                            (Inl e, st3) \<Rightarrow> (Raises e, st3)
                          | (Inr download_count, st3) \<Rightarrow> (Returns download_count, st3))))))"


text \<open>
  The labels of a record as the claims on file names describe them: the rendered value
  of each label key followed by an underscore, in the order of \<^verbatim>\<open>label_keys\<close>. The
  assembler above does not use this function.
\<close>

definition label_prefix :: "env \<Rightarrow> heap \<Rightarrow> Record \<Rightarrow> string list \<Rightarrow> string" where
  "label_prefix env h record label_keys =
     concat (map (\<lambda>field. fmt (dict_str env) h (dict_get (h (raw record)) field) @ ''_'')
               label_keys)"






section \<open>An example application\<close>

text \<open>
  The theorems below are run on this application: an object \<^verbatim>\<open>object_1\<close> named
  \<^verbatim>\<open>Customers\<close> with a file field \<^verbatim>\<open>field_17\<close>, and a view \<^verbatim>\<open>view_1\<close>.
\<close>

definition ex_app :: App where
  "ex_app = \<lparr>app_id = ''abc123'', api_key = None, timeout = None, max_attempts = None,
             field_defs = [\<lparr>FieldDef.key = ''field_17'', FieldDef.name = ''Attachment'',
                             FieldDef.obj = ''object_1''\<rparr>],
             containers = [\<lparr>obj = Some ''object_1'', view = None, scene = None,
                             name = ''Customers''\<rparr>,
                           \<lparr>obj = None, view = Some ''view_1'', scene = Some ''scene_1'',
                             name = ''Customer list''\<rparr>]\<rparr>"

text \<open>
  Three raw records of \<^verbatim>\<open>object_1\<close> at the addresses 10, 20 and 30. The first and the
  third hold an attachment payload (the dicts at 11 and 31), the second holds none; the
  third has no \<^verbatim>\<open>field_2\<close>.
\<close>

definition ex_heap :: heap where
  "ex_heap = (\<lambda>a. [])
     (10 := [(''id'', PStr ''r1''), (''field_1'', PStr ''A''), (''field_2'', PStr ''B''),
             (''field_17_raw'', PDict 11)],
      20 := [(''id'', PStr ''r2''), (''field_1'', PStr ''C''), (''field_2'', PStr ''D'')],
      30 := [(''id'', PStr ''r3''), (''field_1'', PStr ''E''), (''field_17_raw'', PDict 31)],
      11 := [(''filename'', PStr ''doc.pdf''), (''url'', PStr ''https://k/doc.pdf''),
             (''size'', PObj True ''305741'')],
      31 := [(''filename'', PStr ''img.png''), (''url'', PStr ''https://k/img.png''),
             (''size'', PObj True ''1024'')])"


definition ex_cached :: state where
  "ex_cached = \<lparr>data = [(Some ''object_1'', [10, 20, 30])], heap = ex_heap, files = Map.empty,
                dirs_made = [], api_calls = [], http_calls = []\<rparr>"

text \<open>
  Collaborators for the example: the transport returns the batch given (on the example
  heap), every request for a URL other than \<open>bad_url\<close> answers 200 and a request for
  \<open>bad_url\<close> answers 404, the output directory exists, every file can be written, and
  the debugger is given the command \<open>cmd\<close>, if any.
\<close>

definition ex_env :: "addr list \<Rightarrow> pyval \<Rightarrow> dbg_cmd option \<Rightarrow> env" where
  "ex_env batch bad_url cmd =
     \<lparr>api_get = (\<lambda>st request. Inr (batch, ex_heap)),
      requests_get = (\<lambda>st url. Inr \<lparr>status_code = (if url = bad_url then 404 else 200),
                                     content = ''bytes''\<rparr>),
      path_exists = (\<lambda>st path. True),
      makedirs = (\<lambda>st path. None),
      open_wb = (\<lambda>st path. None),
      humanize_bytes = (\<lambda>v. Inr ''1 kB''),
      dict_str = (\<lambda>h a. ''{}''),
      pdb_input = cmd\<rparr>"



section \<open>Lists: the matches of a filter, by position\<close>

lemma filter_unique_index:
  assumes "i < length xs" "P (xs ! i)" "\<forall>j<length xs. P (xs ! j) \<longrightarrow> j = i"
  shows "filter P xs = [xs ! i]"
proof -
  have xs: "xs = take i xs @ xs ! i # drop (Suc i) xs"
    using assms(1) by (simp add: id_take_nth_drop)
  have a: "filter P (take i xs) = []"
  proof -
    have "\<not> P x" if "x \<in> set (take i xs)" for x
    proof
      assume px: "P x"
      from that obtain j where j: "j < i" "x = xs ! j"
        using assms(1) by (auto simp: in_set_conv_nth)
      then have "j < length xs" using assms(1) by simp
      with assms(3) px j have "j = i" by blast
      with j show False by simp
    qed
    then show ?thesis by (simp add: filter_empty_conv)
  qed
  have b: "filter P (drop (Suc i) xs) = []"
  proof -
    have "\<not> P x" if "x \<in> set (drop (Suc i) xs)" for x
    proof
      assume px: "P x"
      from that obtain k where k: "k < length xs - Suc i" "x = xs ! (Suc i + k)"
        by (auto simp: in_set_conv_nth)
      then have "Suc i + k < length xs" by simp
      with assms(3) px k have "Suc i + k = i" by blast
      then show False by simp
    qed
    then show ?thesis by (simp add: filter_empty_conv)
  qed
  have "filter P xs = filter P (take i xs @ xs ! i # drop (Suc i) xs)"
    using xs by simp
  then show ?thesis using a b assms(2) by simp
qed

lemma filter_two_indices:
  assumes "i < j" "j < length xs" "P (xs ! i)" "P (xs ! j)"
  shows "2 \<le> length (filter P xs)"
proof -
  have xs: "xs = take j xs @ xs ! j # drop (Suc j) xs"
    using assms(2) by (simp add: id_take_nth_drop)
  have "xs ! i \<in> set (take j xs)"
    using assms by (auto simp: in_set_conv_nth intro!: exI[of _ i])
  then have "filter P (take j xs) \<noteq> []"
    using assms(3) by (auto simp: filter_empty_conv)
  then have a: "1 \<le> length (filter P (take j xs))"
    by (cases "filter P (take j xs)") auto
  have "length (filter P xs) = length (filter P (take j xs @ xs ! j # drop (Suc j) xs))"
    using xs by simp
  then show ?thesis using a assms(4) by simp
qed


lemma filter_singleton_index:
  assumes "filter P xs = [c]"
  shows "\<exists>i<length xs. c = xs ! i \<and> P (xs ! i) \<and> (\<forall>j<length xs. P (xs ! j) \<longrightarrow> j = i)"
proof -
  have "c \<in> set (filter P xs)" using assms by simp
  then have c: "c \<in> set xs" "P c" by auto
  then obtain i where i: "i < length xs" "xs ! i = c" by (auto simp: in_set_conv_nth)
  have "j = i" if "j < length xs" "P (xs ! j)" for j
  proof (rule ccontr)
    assume "j \<noteq> i"
    then consider "j < i" | "i < j" by linarith
    then have "2 \<le> length (filter P xs)"
    proof cases
      case 1 then show ?thesis using filter_two_indices[of j i xs P] that i c by simp
    next
      case 2 then show ?thesis using filter_two_indices[of i j xs P] that i c by simp
    qed
    then show False using assms by simp
  qed
  then show ?thesis using i c by auto
qed



section \<open>Identifier resolution is unique\<close>

lemma find_container_filter:
  "find_container cs identifier =
     (let matches = filter (names_container identifier) cs
      in if length matches > 1 then
           Inl (ValueError (''Multiple containers use name '' @ fmt_str identifier
                  @ ''. Try using a view or object key.''))
         else case matches of
                m # _ \<Rightarrow> Inr m
              | [] \<Rightarrow> Inl (IndexError (''Unknown container specified: '' @ fmt_str identifier
                         @ ''. Inspect App.containers for available containers.'')))"
proof -
  have "(\<lambda>c. identifier \<in> set [obj c, view c, Some (name c)]) = names_container identifier"
    by (auto simp: fun_eq_iff names_container_def)
  then show ?thesis by (simp add: find_container_def)
qed


text \<open>
  Claim C4. For every identifier and every container list: when exactly one position of
  the list holds a container whose \<^verbatim>\<open>obj\<close>, \<^verbatim>\<open>view\<close> or \<^verbatim>\<open>name\<close> equals the
  identifier, resolution returns the container at that position; when two positions do,
  it raises the \<^verbatim>\<open>ValueError\<close> "Multiple containers use name ..." (the ambiguous
  identifier); when none does, it raises the \<^verbatim>\<open>IndexError\<close> "Unknown container
  specified: ..." (the unknown container). Whenever it returns, what it returns is the
  one container of the list that matches.
\<close>

theorem find_container_unique:
  "(\<forall>i<length cs. names_container identifier (cs ! i)
        \<and> (\<forall>j<length cs. names_container identifier (cs ! j) \<longrightarrow> j = i)
      \<longrightarrow> find_container cs identifier = Inr (cs ! i))
   \<and> ((\<exists>i j. i < j \<and> j < length cs \<and> names_container identifier (cs ! i)
          \<and> names_container identifier (cs ! j))
      \<longrightarrow> find_container cs identifier =
            Inl (ValueError (''Multiple containers use name '' @ fmt_str identifier
                   @ ''. Try using a view or object key.'')))
   \<and> ((\<forall>c \<in> set cs. \<not> names_container identifier c)
      \<longrightarrow> find_container cs identifier =
            Inl (IndexError (''Unknown container specified: '' @ fmt_str identifier
                   @ ''. Inspect App.containers for available containers.'')))
   \<and> (\<forall>c. find_container cs identifier = Inr c
      \<longrightarrow> (\<exists>i<length cs. c = cs ! i \<and> names_container identifier (cs ! i)
             \<and> (\<forall>j<length cs. names_container identifier (cs ! j) \<longrightarrow> j = i)))"
proof (intro conjI allI impI)
  fix i
  assume "i < length cs"
    and "names_container identifier (cs ! i)
         \<and> (\<forall>j<length cs. names_container identifier (cs ! j) \<longrightarrow> j = i)"
  then have "filter (names_container identifier) cs = [cs ! i]"
    using filter_unique_index[of i cs "names_container identifier"] by blast
  then show "find_container cs identifier = Inr (cs ! i)"
    by (simp add: find_container_filter)
next
  assume "\<exists>i j. i < j \<and> j < length cs \<and> names_container identifier (cs ! i)
          \<and> names_container identifier (cs ! j)"
  then have "2 \<le> length (filter (names_container identifier) cs)"
    using filter_two_indices[of _ _ cs "names_container identifier"] by blast
  then show "find_container cs identifier =
            Inl (ValueError (''Multiple containers use name '' @ fmt_str identifier
                   @ ''. Try using a view or object key.''))"
    by (simp add: find_container_filter)
next
  assume "\<forall>c \<in> set cs. \<not> names_container identifier c"
  then have "filter (names_container identifier) cs = []"
    by (simp add: filter_empty_conv)
  then show "find_container cs identifier =
            Inl (IndexError (''Unknown container specified: '' @ fmt_str identifier
                   @ ''. Inspect App.containers for available containers.''))"
    by (simp add: find_container_filter)
next
  fix c
  assume "find_container cs identifier = Inr c"
  then have "filter (names_container identifier) cs = [c]"
    by (auto simp: find_container_filter Let_def split: if_splits list.splits)
  then show "\<exists>i<length cs. c = cs ! i \<and> names_container identifier (cs ! i)
             \<and> (\<forall>j<length cs. names_container identifier (cs ! j) \<longrightarrow> j = i)"
    by (rule filter_singleton_index)
qed



text \<open>
  The three cases at a registry of an object and a view that share their name: the view
  key resolves, the shared name is ambiguous, an unused key is unknown.
\<close>

theorem find_container_unique_witness:
  "find_container
     [\<lparr>obj = Some ''object_1'', view = None, scene = None, name = ''Customers''\<rparr>,
      \<lparr>obj = None, view = Some ''view_1'', scene = Some ''scene_1'', name = ''Customers''\<rparr>]
     (Some ''view_1'')
   = Inr \<lparr>obj = None, view = Some ''view_1'', scene = Some ''scene_1'', name = ''Customers''\<rparr>
   \<and> find_container
     [\<lparr>obj = Some ''object_1'', view = None, scene = None, name = ''Customers''\<rparr>,
      \<lparr>obj = None, view = Some ''view_1'', scene = Some ''scene_1'', name = ''Customers''\<rparr>]
     (Some ''Customers'')
   = Inl (ValueError ''Multiple containers use name Customers. Try using a view or object key.'')
   \<and> find_container
     [\<lparr>obj = Some ''object_1'', view = None, scene = None, name = ''Customers''\<rparr>,
      \<lparr>obj = None, view = Some ''view_1'', scene = Some ''scene_1'', name = ''Customers''\<rparr>]
     (Some ''object_2'')
   = Inl (IndexError
       ''Unknown container specified: object_2. Inspect App.containers for available containers.'')"
proof -
  let ?cs = "[\<lparr>obj = Some ''object_1'', view = None, scene = None, name = ''Customers''\<rparr>,
      \<lparr>obj = None, view = Some ''view_1'', scene = Some ''scene_1'', name = ''Customers''\<rparr>]"
  have one: "find_container ?cs (Some ''view_1'') = Inr (?cs ! 1)"
    using find_container_unique[of ?cs "Some ''view_1''", THEN conjunct1, rule_format, of 1]
    by (simp add: names_container_def less_Suc_eq)
  have "\<exists>i j. i < j \<and> j < length ?cs \<and> names_container (Some ''Customers'') (?cs ! i)
          \<and> names_container (Some ''Customers'') (?cs ! j)"
    by (rule exI[of _ 0], rule exI[of _ 1]) (simp add: names_container_def)
  then have two: "find_container ?cs (Some ''Customers'') =
      Inl (ValueError (''Multiple containers use name '' @ fmt_str (Some ''Customers'')
                   @ ''. Try using a view or object key.''))"
    using find_container_unique[of ?cs "Some ''Customers''"] by blast
  have none: "find_container ?cs (Some ''object_2'') =
      Inl (IndexError (''Unknown container specified: '' @ fmt_str (Some ''object_2'')
                   @ ''. Inspect App.containers for available containers.''))"
    using find_container_unique[of ?cs "Some ''object_2''", THEN conjunct2, THEN conjunct2,
        THEN conjunct1]
    by (simp add: names_container_def)
  show ?thesis using one two none by (simp add: fmt_str_def)
qed


section \<open>Timezone resolution has two tiers\<close>




section \<open>The example application, evaluated\<close>

lemma find_object_1:
  "find_container (containers ex_app) (Some ''object_1'')
     = Inr \<lparr>obj = Some ''object_1'', view = None, scene = None, name = ''Customers''\<rparr>"
  by (simp add: find_container_def ex_app_def)


lemma find_Customers:
  "find_container (containers ex_app) (Some ''Customers'')
     = Inr \<lparr>obj = Some ''object_1'', view = None, scene = None, name = ''Customers''\<rparr>"
  by (simp add: find_container_def ex_app_def)


section \<open>A non-empty cache entry is returned as it is\<close>






section \<open>The assembler, by cases\<close>

lemma assemble_downloads_cases:
  "assemble_downloads app env st identifier field_key label_keys out_dir =
     (case records app env st identifier False None PNone of
        (Inl e, st1) \<Rightarrow> (Raises e, st1)
      | (Inr recs, st1) \<Rightarrow>
          (case assemble_loop env (field_key @ ''_raw'') label_keys out_dir recs (heap st1) [] of
             (Inl e, h) \<Rightarrow> (Raises e, st1\<lparr>heap := h\<rparr>)
           | (Inr downloads, h) \<Rightarrow>
               (case pdb_input env of
                  None \<Rightarrow> (Suspended, st1\<lparr>heap := h\<rparr>)
                | Some Continue \<Rightarrow> (Returns downloads, st1\<lparr>heap := h\<rparr>)
                | Some Quit \<Rightarrow> (Raises BdbQuit, st1\<lparr>heap := h\<rparr>))))"
  by (simp add: assemble_downloads_def breakpoint_def
      split: prod.splits sum.splits option.splits dbg_cmd.splits)

section \<open>The example application: the assembler, evaluated\<close>


lemma ex_heap_30:
  "ex_heap 30 = [(''id'', PStr ''r3''), (''field_1'', PStr ''E''), (''field_17_raw'', PDict 31)]"
  by (simp add: ex_heap_def)

lemma ex_heap_11:
  "ex_heap 11 = [(''filename'', PStr ''doc.pdf''), (''url'', PStr ''https://k/doc.pdf''),
             (''size'', PObj True ''305741'')]"
  by (simp add: ex_heap_def)

lemma ex_heap_31:
  "ex_heap 31 = [(''filename'', PStr ''img.png''), (''url'', PStr ''https://k/img.png''),
             (''size'', PObj True ''1024'')]"
  by (simp add: ex_heap_def)

lemma ex_loop_labelled:
  "assemble_loop env ''field_17_raw'' (Some [''field_1'', ''field_2'']) ''_downloads''
       [\<lparr>raw = 10\<rparr>, \<lparr>raw = 20\<rparr>, \<lparr>raw = 30\<rparr>] ex_heap []
     = (Inr [11, 31],
        ex_heap(11 := [(''filename'', PStr ''_downloads/A_B_doc.pdf''),
                       (''url'', PStr ''https://k/doc.pdf''), (''size'', PObj True ''305741'')],
                31 := [(''filename'', PStr ''_downloads/E_None_img.png''),
                       (''url'', PStr ''https://k/img.png''), (''size'', PObj True ''1024'')]))"
  by (simp add: assemble_record_def dict_get_def truthy_def label_filename_def fmt_def
      os_path_join_def ex_heap_def)


lemma ex_records_cached:
  "records ex_app env ex_cached (Some ''object_1'') False None PNone
     = (Inr [\<lparr>raw = 10\<rparr>, \<lparr>raw = 20\<rparr>, \<lparr>raw = 30\<rparr>], ex_cached)"
  by (simp add: records_def find_object_1 falsy_str_def obj_or_view_def Let_def
      generate_records_def)
     (simp add: ex_cached_def generate_records_def)

lemma ex_cached_heap: "heap ex_cached = ex_heap"
  by (simp add: ex_cached_def)

section \<open>File names carry the labels in the order of the label keys\<close>

lemma fmt_PStr: "fmt ds h (PStr s) = s"
  by (simp add: fmt_def)

lemma label_filename_foldr:
  "label_filename env h record ks filename =
     foldr (\<lambda>field filename.
             PStr (fmt (dict_str env) h (dict_get (h (raw record)) field) @ ''_''
                   @ fmt (dict_str env) h filename)) ks filename"
  by (simp add: label_filename_def foldr_conv_fold)

lemma fmt_label_filename:
  "fmt (dict_str env) h (label_filename env h record ks filename)
     = label_prefix env h record ks @ fmt (dict_str env) h filename"
  by (induction ks) (simp_all add: label_filename_foldr label_prefix_def fmt_PStr)

lemma label_filename_Cons:
  "label_filename env h record (k # ks) filename
     = PStr (label_prefix env h record (k # ks) @ fmt (dict_str env) h filename)"
proof -
  have "label_filename env h record (k # ks) filename
      = PStr (fmt (dict_str env) h (dict_get (h (raw record)) k) @ ''_''
              @ fmt (dict_str env) h (label_filename env h record ks filename))"
    by (simp add: label_filename_foldr)
  then show ?thesis
    by (simp add: fmt_label_filename label_prefix_def)
qed

lemma assemble_record_labelled:
  assumes "dict_get (h (raw record)) field_key_raw = PDict a"
    and "h a \<noteq> []"
    and "map_of (h a) ''filename'' = Some filename"
    and "label_keys \<noteq> []"
  shows "assemble_record env field_key_raw (Some label_keys) out_dir record h
     = Inr (Some a,
            h(a := AList.update ''filename''
                     (PStr (os_path_join out_dir
                              (label_prefix env h record label_keys
                               @ fmt (dict_str env) h filename)))
                     (h a)))"
proof -
  from assms(4) obtain k ks where ks: "label_keys = k # ks" by (cases label_keys) auto
  show ?thesis
    using assms(1-3) unfolding ks
    by (simp add: assemble_record_def truthy_def label_filename_Cons del: fun_upd_apply)
qed

lemma label_prefix_append:
  "label_prefix env h record (ks1 @ ks2)
     = label_prefix env h record ks1 @ label_prefix env h record ks2"
  by (simp add: label_prefix_def)

lemma label_prefix_missing:
  assumes "map_of (h (raw record)) k = None"
  shows "label_prefix env h record [k] = ''None_''"
  using assms by (simp add: label_prefix_def dict_get_def fmt_def)



section \<open>A missing label\<close>

text \<open>
  Claim C5, as the code has it. The claim as written fails: the third example record has
  no \<^verbatim>\<open>field_2\<close>, and the file name the assembler writes for it carries the segment
  \<^verbatim>\<open>None\<close>, the text an f-string renders \<^verbatim>\<open>record.raw.get(field)\<close> as, and not the
  empty segment.
\<close>

theorem assemble_missing_label_counterexample:
  "map_of (ex_heap 30) ''field_2'' = None
   \<and> map_of (heap (snd (assemble_downloads ex_app (ex_env [] PNone None) ex_cached
                          (Some ''object_1'') ''field_17'' (Some [''field_1'', ''field_2''])
                          ''_downloads'')) 31) ''filename''
       = Some (PStr ''_downloads/E_None_img.png'')
   \<and> map_of (heap (snd (assemble_downloads ex_app (ex_env [] PNone None) ex_cached
                          (Some ''object_1'') ''field_17'' (Some [''field_1'', ''field_2''])
                          ''_downloads'')) 31) ''filename''
       \<noteq> Some (PStr ''_downloads/E__img.png'')"
proof -
  have h: "heap ex_cached = ex_heap" by (simp add: ex_cached_def)
  have p: "pdb_input (ex_env [] PNone None) = None" by (simp add: ex_env_def)
  show ?thesis
    by (simp add: ex_heap_30 assemble_downloads_cases ex_records_cached h p ex_loop_labelled
        del: assemble_loop.simps)
qed

text \<open>
  Claim C5, amended: for every record whose attachment payload is a non-empty dict with
  a \<^verbatim>\<open>filename\<close> entry, if a key listed in the label keys is absent from the
  record's raw data, the loop body of the assembler does not fail: it appends the
  payload, and in the file name it writes the label of the absent key is the segment
  \<^verbatim>\<open>None\<close>, at the position of the key.
\<close>

theorem assemble_record_missing_label:
  "dict_get (h (raw record)) field_key_raw = PDict a \<and> h a \<noteq> []
     \<and> map_of (h a) ''filename'' = Some filename
     \<and> map_of (h (raw record)) k = None
    \<longrightarrow> assemble_record env field_key_raw (Some (ks1 @ k # ks2)) out_dir record h
        = Inr (Some a,
               h(a := AList.update ''filename''
                        (PStr (os_path_join out_dir
                                 (concat (map (\<lambda>field. fmt (dict_str env) h
                                                  (dict_get (h (raw record)) field) @ ''_'')
                                            ks1)
                                  @ ''None_''
                                  @ concat (map (\<lambda>field. fmt (dict_str env) h
                                                  (dict_get (h (raw record)) field) @ ''_'')
                                            ks2)
                                  @ fmt (dict_str env) h filename)))
                        (h a)))"
proof
  assume h: "dict_get (h (raw record)) field_key_raw = PDict a \<and> h a \<noteq> []
     \<and> map_of (h a) ''filename'' = Some filename
     \<and> map_of (h (raw record)) k = None"
  have "label_prefix env h record (ks1 @ k # ks2)
      = label_prefix env h record ks1 @ ''None_'' @ label_prefix env h record ks2"
    using h label_prefix_append[of env h "record" ks1 "[k] @ ks2"]
      label_prefix_append[of env h "record" "[k]" ks2]
      label_prefix_missing[of h "record" k env]
    by simp
  then show "assemble_record env field_key_raw (Some (ks1 @ k # ks2)) out_dir record h
        = Inr (Some a,
               h(a := AList.update ''filename''
                        (PStr (os_path_join out_dir
                                 (concat (map (\<lambda>field. fmt (dict_str env) h
                                                  (dict_get (h (raw record)) field) @ ''_'')
                                            ks1)
                                  @ ''None_''
                                  @ concat (map (\<lambda>field. fmt (dict_str env) h
                                                  (dict_get (h (raw record)) field) @ ''_'')
                                            ks2)
                                  @ fmt (dict_str env) h filename)))
                        (h a)))"
    using h assemble_record_labelled[of h "record" field_key_raw a filename "ks1 @ k # ks2"
        env out_dir]
    by (simp add: label_prefix_def)
qed


text \<open>On the third example record, which has no \<^verbatim>\<open>field_2\<close>.\<close>

theorem assemble_record_missing_label_witness:
  "assemble_record (ex_env [] PNone None) ''field_17_raw'' (Some [''field_1'', ''field_2''])
       ''_downloads'' \<lparr>raw = 30\<rparr> ex_heap
     = Inr (Some 31,
            ex_heap(31 := [(''filename'', PStr ''_downloads/E_None_img.png''),
                           (''url'', PStr ''https://k/img.png''),
                           (''size'', PObj True ''1024'')]))"
proof -
  have "assemble_record (ex_env [] PNone None) ''field_17_raw'' (Some ([''field_1''] @ ''field_2'' # []))
       ''_downloads'' \<lparr>raw = 30\<rparr> ex_heap
     = Inr (Some 31, ex_heap(31 := AList.update ''filename''
              (PStr (os_path_join ''_downloads''
                 (concat (map (\<lambda>field. fmt (dict_str (ex_env [] PNone None)) ex_heap
                                  (dict_get (ex_heap (raw \<lparr>raw = 30\<rparr>)) field) @ ''_'')
                            [''field_1''])
                  @ ''None_''
                  @ concat (map (\<lambda>field. fmt (dict_str (ex_env [] PNone None)) ex_heap
                                  (dict_get (ex_heap (raw \<lparr>raw = 30\<rparr>)) field) @ ''_'')
                            [])
                  @ fmt (dict_str (ex_env [] PNone None)) ex_heap (PStr ''img.png''))))
              (ex_heap 31)))"
    using assemble_record_missing_label[of ex_heap "\<lparr>raw = 30\<rparr>" "''field_17_raw''" 31
        "PStr ''img.png''" "''field_2''" "ex_env [] PNone None" "[''field_1'']" "[]"
        "''_downloads''"]
    by (simp add: ex_heap_30 ex_heap_31 dict_get_def)
  then show ?thesis
    by (simp add: ex_heap_30 ex_heap_31 dict_get_def fmt_def os_path_join_def)
qed

section \<open>The field lookup of download\<close>

text \<open>
  Claim C6, at a failing input. \<^verbatim>\<open>download\<close> hands the caller's identifier to
  \<^verbatim>\<open>_find_field_def\<close>, which compares it with the \<^verbatim>\<open>obj\<close> of each field
  definition. Called with the name \<^verbatim>\<open>Customers\<close> of the container \<^verbatim>\<open>object_1\<close> and
  the key \<^verbatim>\<open>field_17\<close> of a field of that container, it raises
  \<^verbatim>\<open>ValueError("Field not found: 'field_17'")\<close>: the name resolves to the container,
  the field is defined on the container's object key, and the lookup under the name
  finds nothing.
\<close>

theorem download_field_lookup_uses_identifier:
  "fst (download ex_app (ex_env [] PNone None) ex_cached ''Customers'' ''field_17''
          ''_downloads'' None)
     = Raises (ValueError (''Field not found: '' @ [CHR 0x27] @ ''field_17'' @ [CHR 0x27]))
   \<and> find_container (containers ex_app) (Some ''Customers'')
     = Inr \<lparr>obj = Some ''object_1'', view = None, scene = None, name = ''Customers''\<rparr>
   \<and> find_field_def ex_app ''field_17'' ''object_1''
     = [\<lparr>FieldDef.key = ''field_17'', FieldDef.name = ''Attachment'',
          FieldDef.obj = ''object_1''\<rparr>]
   \<and> find_field_def ex_app ''field_17'' ''Customers'' = []"
proof -
  have a: "find_field_def ex_app ''field_17'' ''Customers'' = []"
    by (simp add: find_field_def_def ex_app_def)
  have b: "find_field_def ex_app ''field_17'' ''object_1''
     = [\<lparr>FieldDef.key = ''field_17'', FieldDef.name = ''Attachment'',
          FieldDef.obj = ''object_1''\<rparr>]"
    by (simp add: find_field_def_def ex_app_def lower_def lower_char_def)
  have c: "ensure_dir (ex_env [] PNone None) ex_cached ''_downloads'' = Inr ex_cached"
    by (simp add: ensure_dir_def ex_env_def)
  show ?thesis
    using a b c find_Customers by (simp add: download_def)
qed

section \<open>The breakpoint\<close>






section \<open>The download executor aborts at the first failure and counts the files\<close>

lemma download_file_written:
  assumes "download_file env d st = (None, s)"
  shows "\<exists>p url res. map_of (heap st d) ''filename'' = Some (PStr p)
           \<and> map_of (heap st d) ''url'' = Some url
           \<and> requests_get env st url = Inr res
           \<and> \<not> (400 \<le> status_code res \<and> status_code res < 600)
           \<and> s = st\<lparr>http_calls := http_calls st @ [url],
                     files := (files st)(p \<mapsto> content res)\<rparr>"
  using assms
  by (simp add: download_file_def Let_def
      split: option.splits sum.splits pyval.splits if_splits)

lemma download_file_frame:
  assumes "download_file env d st = (r, s)"
  shows "heap s = heap st \<and> data s = data st \<and> api_calls s = api_calls st
         \<and> dirs_made s = dirs_made st \<and> dom (files st) \<subseteq> dom (files s)"
  using assms
  by (auto simp: download_file_def Let_def
      split: option.splits sum.splits pyval.splits if_splits)

lemma download_file_status:
  assumes "map_of (heap st d) ''filename'' = Some filename"
    and "map_of (heap st d) ''size'' = Some sz"
    and "humanize_bytes env sz = Inr filesize"
    and "map_of (heap st d) ''url'' = Some url"
    and "requests_get env st url = Inr res"
    and "400 \<le> status_code res" "status_code res < 600"
  shows "download_file env d st
           = (Some (HTTPError (fmt (dict_str env) (heap st) url) (status_code res)),
              st\<lparr>http_calls := http_calls st @ [url]\<rparr>)"
  using assms by (simp add: download_file_def)

lemma download_files_loop_append:
  "download_files_loop env (ds1 @ ds2) st n =
     (case download_files_loop env ds1 st n of
        (Inl e, s) \<Rightarrow> (Inl e, s)
      | (Inr m, s) \<Rightarrow> download_files_loop env ds2 s m)"
  by (induction ds1 arbitrary: st n) (simp_all split: prod.splits option.splits)

lemma download_files_loop_frame:
  "download_files_loop env ds st n = (r, s) \<Longrightarrow>
     heap s = heap st \<and> data s = data st \<and> api_calls s = api_calls st
     \<and> dirs_made s = dirs_made st \<and> dom (files st) \<subseteq> dom (files s)"
proof (induction ds arbitrary: st n)
  case Nil
  then show ?case by simp
next
  case (Cons d ds)
  obtain e st' where step: "download_file env d st = (e, st')"
    by (cases "download_file env d st")
  note f = download_file_frame[OF step]
  show ?case
  proof (cases e)
    case None
    with Cons.prems step have "download_files_loop env ds st' (n + 1) = (r, s)" by simp
    from Cons.IH[OF this] have ih: "heap s = heap st'" "data s = data st'"
      "api_calls s = api_calls st'" "dirs_made s = dirs_made st'"
      "dom (files st') \<subseteq> dom (files s)"
      by simp_all
    from f ih(5) have "dom (files st) \<subseteq> dom (files s)"
      by (meson order_trans)
    with f ih show ?thesis by simp
  next
    case (Some err)
    with Cons.prems step have "s = st'" by simp
    with f show ?thesis by simp
  qed
qed

lemma download_files_loop_success:
  "download_files_loop env ds st n = (Inr m, s) \<Longrightarrow>
     m = n + length ds
     \<and> http_calls s = http_calls st @ map (\<lambda>d. dict_get (heap st d) ''url'') ds
     \<and> (\<forall>d \<in> set ds. \<exists>p. map_of (heap st d) ''filename'' = Some (PStr p) \<and> p \<in> dom (files s))"
proof (induction ds arbitrary: st n)
  case Nil
  then show ?case by simp
next
  case (Cons d ds)
  obtain e st' where step: "download_file env d st = (e, st')"
    by (cases "download_file env d st")
  with Cons.prems have e: "e = None" and rest: "download_files_loop env ds st' (n + 1) = (Inr m, s)"
    by (auto split: option.splits)
  from download_file_written[OF step[unfolded e]] obtain p url res where
    f: "map_of (heap st d) ''filename'' = Some (PStr p)"
    and u: "map_of (heap st d) ''url'' = Some url"
    and "requests_get env st url = Inr res"
    and "\<not> (400 \<le> status_code res \<and> status_code res < 600)"
    and st': "st' = st\<lparr>http_calls := http_calls st @ [url],
                       files := (files st)(p \<mapsto> content res)\<rparr>"
    by (elim exE conjE) (rule that)
  from Cons.IH[OF rest] have ih: "m = n + 1 + length ds"
    "http_calls s = http_calls st' @ map (\<lambda>d. dict_get (heap st' d) ''url'') ds"
    "\<forall>d \<in> set ds. \<exists>p. map_of (heap st' d) ''filename'' = Some (PStr p) \<and> p \<in> dom (files s)"
    by simp_all
  have "p \<in> dom (files st')" by (simp add: st')
  with download_files_loop_frame[OF rest] have "p \<in> dom (files s)"
    by blast
  with ih f u show ?case
    by (simp add: dict_get_def st')
qed

lemma download_files_loop_failure:
  "download_files_loop env ds st n = (Inl e, s) \<Longrightarrow>
     \<exists>ds1 d ds2 s1. ds = ds1 @ d # ds2
        \<and> download_files_loop env ds1 st n = (Inr (n + length ds1), s1)
        \<and> download_file env d s1 = (Some e, s)"
proof (induction ds arbitrary: st n)
  case Nil
  then show ?case by simp
next
  case (Cons d ds)
  obtain r st' where step: "download_file env d st = (r, st')"
    by (cases "download_file env d st")
  show ?case
  proof (cases r)
    case None
    with Cons.prems step have "download_files_loop env ds st' (n + 1) = (Inl e, s)" by simp
    from Cons.IH[OF this] obtain ds1 d' ds2 s1 where
      ds: "ds = ds1 @ d' # ds2"
      and pre: "download_files_loop env ds1 st' (n + 1) = (Inr (n + 1 + length ds1), s1)"
      and bad: "download_file env d' s1 = (Some e, s)"
      by blast
    have "d # ds = (d # ds1) @ d' # ds2" using ds by simp
    moreover have "download_files_loop env (d # ds1) st n = (Inr (n + length (d # ds1)), s1)"
      using step None pre by simp
    ultimately show ?thesis using bad by blast
  next
    case (Some err)
    with Cons.prems step have "err = e" "st' = s" by simp_all
    with step Some have "download_file env d st = (Some e, s)" by simp
    moreover have "d # ds = [] @ d # ds" by simp
    moreover have "download_files_loop env [] st n = (Inr (n + length ([]::addr list)), st)"
      by simp
    ultimately show ?thesis by blast
  qed
qed

text \<open>
  Claim C7. The executor works through the descriptors in their order: a run on a list
  that starts with \<open>ds1\<close> is the run on \<open>ds1\<close>, continued on the rest when \<open>ds1\<close> went
  through. A failure on \<open>ds1\<close> is the result of the whole run, with the state at the
  failure, so no later descriptor is attempted. When the run on \<open>ds1\<close> went through and
  the next transfer answers with a status from 400 to 599, the run raises the
  \<^verbatim>\<open>HTTPError\<close> of \<^verbatim>\<open>raise_for_status\<close> with that URL and status, in the state after
  \<open>ds1\<close> plus the one logged request: the files written before stay. Every failure is
  of this shape: some descriptor fails after the descriptors before it went through.
  When the run returns, it returns the number of descriptors, every URL was requested
  once in order, every destination path is a file, and no file that existed is gone.
\<close>

theorem download_files_abort_and_count:
  "(\<forall>e s. download_files env st ds1 = (Inl e, s)
       \<longrightarrow> download_files env st (ds1 @ ds2) = (Inl e, s))
   \<and> (\<forall>n s. download_files env st ds1 = (Inr n, s)
       \<longrightarrow> n = length ds1
         \<and> http_calls s = http_calls st @ map (\<lambda>d. dict_get (heap st d) ''url'') ds1
         \<and> (\<forall>d \<in> set ds1. \<exists>p. map_of (heap st d) ''filename'' = Some (PStr p)
                               \<and> p \<in> dom (files s))
         \<and> dom (files st) \<subseteq> dom (files s)
         \<and> download_files env st (ds1 @ ds2) = download_files_loop env ds2 s n)
   \<and> (\<forall>n s d filename sz filesize url res.
         download_files env st ds1 = (Inr n, s)
         \<and> map_of (heap s d) ''filename'' = Some filename
         \<and> map_of (heap s d) ''size'' = Some sz
         \<and> humanize_bytes env sz = Inr filesize
         \<and> map_of (heap s d) ''url'' = Some url
         \<and> requests_get env s url = Inr res
         \<and> 400 \<le> status_code res \<and> status_code res < 600
       \<longrightarrow> download_files env st (ds1 @ d # ds2)
           = (Inl (HTTPError (fmt (dict_str env) (heap s) url) (status_code res)),
              s\<lparr>http_calls := http_calls s @ [url]\<rparr>))
   \<and> (\<forall>e s. download_files env st ds = (Inl e, s)
       \<longrightarrow> (\<exists>ds1 d ds2 s1. ds = ds1 @ d # ds2
              \<and> download_files env st ds1 = (Inr (length ds1), s1)
              \<and> download_file env d s1 = (Some e, s)))"
proof (intro conjI allI impI)
  fix e s
  assume "download_files env st ds1 = (Inl e, s)"
  then show "download_files env st (ds1 @ ds2) = (Inl e, s)"
    by (simp add: download_files_def download_files_loop_append)
next
  fix n s
  assume a: "download_files env st ds1 = (Inr n, s)"
  then have l: "download_files_loop env ds1 st 0 = (Inr n, s)"
    by (simp add: download_files_def)
  from download_files_loop_success[OF l]
  show "n = length ds1" by simp
  from download_files_loop_success[OF l]
  show "http_calls s = http_calls st @ map (\<lambda>d. dict_get (heap st d) ''url'') ds1" by simp
  from download_files_loop_frame[OF l]
  show "dom (files st) \<subseteq> dom (files s)" by simp
  from l show "download_files env st (ds1 @ ds2) = download_files_loop env ds2 s n"
    by (simp add: download_files_def download_files_loop_append)
  from download_files_loop_success[OF l]
  show "\<forall>d \<in> set ds1. \<exists>p. map_of (heap st d) ''filename'' = Some (PStr p)
                               \<and> p \<in> dom (files s)"
    by blast
next
  fix n s d filename sz filesize url res
  assume a: "download_files env st ds1 = (Inr n, s)
         \<and> map_of (heap s d) ''filename'' = Some filename
         \<and> map_of (heap s d) ''size'' = Some sz
         \<and> humanize_bytes env sz = Inr filesize
         \<and> map_of (heap s d) ''url'' = Some url
         \<and> requests_get env s url = Inr res
         \<and> 400 \<le> status_code res \<and> status_code res < 600"
  then have l: "download_files_loop env ds1 st 0 = (Inr n, s)"
    by (simp add: download_files_def)
  from a have "download_file env d s
           = (Some (HTTPError (fmt (dict_str env) (heap s) url) (status_code res)),
              s\<lparr>http_calls := http_calls s @ [url]\<rparr>)"
    using download_file_status[of s d filename sz env filesize url res] by blast
  with l show "download_files env st (ds1 @ d # ds2)
           = (Inl (HTTPError (fmt (dict_str env) (heap s) url) (status_code res)),
              s\<lparr>http_calls := http_calls s @ [url]\<rparr>)"
    by (simp add: download_files_def download_files_loop_append)
next
  fix e s
  assume "download_files env st ds = (Inl e, s)"
  then have "download_files_loop env ds st 0 = (Inl e, s)"
    by (simp add: download_files_def)
  from download_files_loop_failure[OF this]
  show "\<exists>ds1 d ds2 s1. ds = ds1 @ d # ds2
              \<and> download_files env st ds1 = (Inr (length ds1), s1)
              \<and> download_file env d s1 = (Some e, s)"
    by (simp add: download_files_def)
qed


text \<open>
  On the example: of three transfers the second answers 404, so the first file is
  written, two requests are logged and the third transfer is not attempted; and when
  both transfers answer 200 the count is the number of descriptors.
\<close>

lemma ex_download_file_11:
  "heap st = ex_heap \<Longrightarrow>
   download_file (ex_env batch bad cmd) 11 st
     = (if bad = PStr ''https://k/doc.pdf''
        then (Some (HTTPError ''https://k/doc.pdf'' 404),
              st\<lparr>http_calls := http_calls st @ [PStr ''https://k/doc.pdf'']\<rparr>)
        else (None, st\<lparr>http_calls := http_calls st @ [PStr ''https://k/doc.pdf''],
                       files := (files st)(''doc.pdf'' \<mapsto> ''bytes'')\<rparr>))"
  by (simp add: download_file_def ex_heap_11 ex_env_def fmt_def)

lemma ex_download_file_31:
  "heap st = ex_heap \<Longrightarrow>
   download_file (ex_env batch bad cmd) 31 st
     = (if bad = PStr ''https://k/img.png''
        then (Some (HTTPError ''https://k/img.png'' 404),
              st\<lparr>http_calls := http_calls st @ [PStr ''https://k/img.png'']\<rparr>)
        else (None, st\<lparr>http_calls := http_calls st @ [PStr ''https://k/img.png''],
                       files := (files st)(''img.png'' \<mapsto> ''bytes'')\<rparr>))"
  by (simp add: download_file_def ex_heap_31 ex_env_def fmt_def)

theorem download_files_abort_and_count_witness:
  "download_files (ex_env [] (PStr ''https://k/img.png'') None) ex_cached [11, 31, 11]
     = (Inl (HTTPError ''https://k/img.png'' 404),
        ex_cached\<lparr>http_calls := [PStr ''https://k/doc.pdf'', PStr ''https://k/img.png''],
                   files := [''doc.pdf'' \<mapsto> ''bytes'']\<rparr>)
   \<and> download_files (ex_env [] PNone None) ex_cached [11, 31]
     = (Inr (length [11, 31 :: addr]),
        ex_cached\<lparr>http_calls := [PStr ''https://k/doc.pdf'', PStr ''https://k/img.png''],
                   files := [''doc.pdf'' \<mapsto> ''bytes'', ''img.png'' \<mapsto> ''bytes'']\<rparr>)"
proof -
  let ?bad = "ex_env [] (PStr ''https://k/img.png'') None"
  let ?ok = "ex_env [] PNone None"
  let ?s1 = "ex_cached\<lparr>http_calls := [PStr ''https://k/doc.pdf''],
                        files := [''doc.pdf'' \<mapsto> ''bytes'']\<rparr>"
  have first: "download_files ?bad ex_cached [11] = (Inr 1, ?s1)"
    by (simp add: download_files_def ex_download_file_11 ex_cached_heap) (simp add: ex_cached_def)
  have h: "heap ?s1 = ex_heap" by (simp add: ex_cached_heap)
  have r: "requests_get ?bad ?s1 (PStr ''https://k/img.png'')
             = Inr \<lparr>status_code = 404, content = ''bytes''\<rparr>"
    by (simp add: ex_env_def)
  have hb: "humanize_bytes ?bad (PObj True ''1024'') = Inr ''1 kB''"
    by (simp add: ex_env_def)
  have abort: "download_files ?bad ex_cached ([11] @ 31 # [11])
     = (Inl (HTTPError (fmt (dict_str ?bad) (heap ?s1) (PStr ''https://k/img.png''))
               (status_code \<lparr>status_code = 404, content = ''bytes''\<rparr>)),
        ?s1\<lparr>http_calls := http_calls ?s1 @ [PStr ''https://k/img.png'']\<rparr>)"
    using download_files_abort_and_count[of ?bad ex_cached "[11]" "[11]", THEN conjunct2,
        THEN conjunct2, THEN conjunct1, rule_format,
        of 1 ?s1 31 "PStr ''img.png''" "PObj True ''1024''" "''1 kB''"
           "PStr ''https://k/img.png''" "\<lparr>status_code = 404, content = ''bytes''\<rparr>"]
      first r hb
    by (simp add: h ex_heap_31)
  let ?s2 = "ex_cached\<lparr>http_calls := [PStr ''https://k/doc.pdf'', PStr ''https://k/img.png''],
                   files := [''doc.pdf'' \<mapsto> ''bytes'', ''img.png'' \<mapsto> ''bytes'']\<rparr>"
  have both: "download_files ?ok ex_cached [11, 31] = (Inr 2, ?s2)"
    by (simp add: download_files_def ex_download_file_11 ex_download_file_31 ex_cached_heap)
       (simp add: ex_cached_def)
  have count: "(2::nat) = length [11, 31 :: addr]"
    using download_files_abort_and_count[of ?ok ex_cached "[11, 31]" "[]", THEN conjunct2,
        THEN conjunct1, rule_format, OF both]
    by simp
  show ?thesis
    using abort both count by (simp add: fmt_def)
qed

section \<open>Download looks the records up under the object key\<close>











section \<open>The assembler writes into the cached records\<close>



















subsection \<open>The example, assembled twice\<close>











subsection \<open>The claim\<close>






end
